theory Spec2Isabelle
  imports Complex_Main "HOL-Library.Log_Nat"
begin

section \<open>The weight header firmware/weights/b4.h\<close>

text \<open>
  The header is static data behind two preprocessor conditionals: an inclusion guard
  (\<^verbatim>\<open>B4_H_\<close>) and a build-mode switch (\<^verbatim>\<open>__SYNTHESIS__\<close>). It is embedded as its
  sequence of lines; a small model of conditional inclusion and of the initialisation of a
  namespace-scope array gives it its meaning.
\<close>

subsection \<open>Abstract syntax\<close>

type_synonym macro = string

text \<open>
  A definition \<^verbatim>\<open>static T name[n];\<close> or \<^verbatim>\<open>static T name[n] = {...};\<close>. The
  specifiers are the words before the element type; the literals of an initializer are
  decimal fractions, kept as exact rationals.
\<close>

record array_def =
  specifiers :: "string list"
  elem_type :: string
  arr_name :: string
  arr_size :: nat
  initializer :: "rat list option"

datatype line =
    Comment string
  | Summary string rat
  | Blank
  | Ifndef macro
  | Define macro
  | Else
  | Endif
  | ArrayDef array_def

subsection \<open>The file\<close>

text \<open>Line 12: the 256 literals between the braces, in the order they are written.\<close>

definition b4_literals :: "rat list" where
  "b4_literals = [
   -0.1326, -0.2092, -0.2121, -0.1416, -0.2045, -0.2161, -0.2601, -0.0998,
   -0.1124, -0.0799, -0.2167, -0.1787, 0.0070, -0.1391, -0.1298, -0.1411,
   -0.0910, -0.1364, -0.0433, -0.1804, -0.1886, -0.1896, -0.2016, -0.1947,
   -0.1379, -0.0252, -0.0635, 0.0984, -0.1527, -0.0968, -0.1649, -0.1321,
   -0.1358, -0.1319, -0.0695, -0.0677, -0.0952, -0.1008, -0.0247, -0.2302,
   -0.0603, -0.1063, -0.0666, -0.1769, -0.0679, -0.1644, -0.0869, -0.2376,
   -0.2032, -0.2634, -0.1487, -0.0441, -0.0786, -0.1214, -0.0746, -0.1626,
   -0.0906, -0.0844, 0.0086, -0.1645, -0.1422, -0.1091, -0.2137, -0.2501,
   -0.0069, -0.2051, -0.0713, -0.1181, -0.1385, -0.0278, -0.0297, -0.0958,
   -0.0898, 0.0206, -0.1141, -0.1261, -0.2135, -0.1169, -0.0247, -0.1346,
   -0.2172, -0.1054, -0.1447, -0.0642, -0.1364, -0.1780, -0.0059, -0.1047,
   -0.0765, -0.1538, -0.0689, -0.1119, -0.2540, -0.0988, -0.0540, -0.1653,
   0.0129, -0.1750, -0.0628, -0.1074, -0.1850, -0.2101, -0.2290, -0.0841,
   -0.2285, -0.0995, -0.2102, -0.1037, -0.1851, -0.1164, -0.0167, -0.1352,
   -0.1288, -0.0778, -0.1216, -0.1592, -0.1176, -0.1091, -0.1878, -0.1686,
   -0.1777, -0.1279, -0.1160, -0.2089, -0.0585, -0.0334, -0.1846, -0.1948,
   -0.1588, -0.0880, -0.1588, -0.1495, -0.1278, -0.0182, -0.1386, -0.1104,
   -0.0687, -0.1702, -0.2141, -0.2277, -0.1559, -0.0850, -0.1378, -0.1005,
   -0.1828, -0.2076, -0.0049, -0.1465, -0.1062, -0.1167, -0.0380, -0.1259,
   -0.1127, -0.1061, -0.2068, 0.0411, -0.0978, -0.0765, -0.0226, -0.1240,
   -0.1099, -0.1185, -0.0833, -0.1133, -0.1747, -0.0091, -0.1372, -0.0939,
   -0.1557, -0.1648, -0.1263, -0.0326, -0.1944, -0.1816, 0.0059, -0.1009,
   -0.1474, -0.1396, -0.0269, -0.1183, -0.0893, -0.0275, -0.1459, -0.1519,
   -0.0750, -0.0417, -0.0747, -0.1943, -0.1811, -0.2460, 0.0063, -0.0966,
   -0.3029, -0.0626, -0.1517, -0.0471, -0.1599, -0.1057, -0.2611, -0.1744,
   -0.0825, -0.0502, -0.0937, -0.1880, -0.0335, -0.2561, -0.1768, -0.0460,
   -0.0946, -0.2273, -0.1002, -0.1597, -0.2112, -0.1022, -0.1336, -0.2578,
   -0.0447, -0.2451, -0.1326, -0.1242, -0.1280, -0.2598, -0.0506, -0.1412,
   -0.1960, -0.1344, -0.1124, -0.0698, -0.1699, -0.1816, -0.0484, -0.1767,
   0.0985, -0.0996, -0.0471, -0.2042, -0.1190, -0.1257, -0.1852, -0.1945,
   -0.1208, -0.1091, -0.0448, -0.0754, -0.1580, -0.1866, -0.1895, -0.1033,
   -0.0454, -0.0878, -0.0470, -0.2538, -0.1369, -0.1184, -0.1805, -0.0721]"


text \<open>Line 10: the definition without an initializer.\<close>

definition b4_placeholder :: array_def where
  "b4_placeholder = \<lparr>specifiers = [''static''], elem_type = ''model_default_t'',
     arr_name = ''b4'', arr_size = 256, initializer = None\<rparr>"

text \<open>Line 12: the definition with the brace-enclosed initializer.\<close>

definition b4_literal_def :: array_def where
  "b4_literal_def = \<lparr>specifiers = [''static''], elem_type = ''model_default_t'',
     arr_name = ''b4'', arr_size = 256, initializer = Some b4_literals\<rparr>"

text \<open>The fifteen lines of the header.\<close>

definition b4_h :: "line list" where
  "b4_h = [
     Comment ''Numpy array shape [256]'',
     Summary ''Min'' (-0.302869617939),
     Summary ''Max'' 0.098474644125,
     Summary ''Number of zeros'' 0,
     Blank,
     Ifndef ''B4_H_'',
     Define ''B4_H_'',
     Blank,
     Ifndef ''__SYNTHESIS__'',
     ArrayDef b4_placeholder,
     Else,
     ArrayDef b4_literal_def,
     Endif,
     Blank,
     Endif]"

subsection \<open>Conditional inclusion\<close>

text \<open>
  A translation unit under construction: the macros defined so far and the definitions
  that reached the compiler, in order.
\<close>

record tu =
  defined :: "macro set"
  emitted :: "array_def list"

text \<open>
  One frame per open conditional: whether its current group is taken, and whether its
  \<^verbatim>\<open>#else\<close> has been seen. A line is live when every enclosing group is taken.
\<close>

datatype frame = Frame (taking: bool) (else_seen: bool)

text \<open>What stops a build: a malformed conditional, or an ill-formed use of a name.\<close>

datatype error =
    ElseWithoutIf
  | ElseAfterElse
  | EndifWithoutIf
  | UnterminatedConditional
  | Undeclared string
  | Redefinition string
  | ExcessInitializers string
  | AssignToConst string
  | OutOfBounds string nat

definition active :: "frame list \<Rightarrow> bool" where
  "active fs = list_all taking fs"

fun pp_line :: "line \<Rightarrow> frame list \<times> tu \<Rightarrow> error + frame list \<times> tu" where
  "pp_line (Comment c) (fs, t) = Inr (fs, t)"
| "pp_line (Summary k v) (fs, t) = Inr (fs, t)"
| "pp_line Blank (fs, t) = Inr (fs, t)"
| "pp_line (Ifndef m) (fs, t) = Inr (Frame (m \<notin> defined t) False # fs, t)"
| "pp_line (Define m) (fs, t) =
     Inr (fs, if active fs then t\<lparr>defined := insert m (defined t)\<rparr> else t)"
| "pp_line Else ([], t) = Inl ElseWithoutIf"
| "pp_line Else (Frame b e # fs, t) =
     (if e then Inl ElseAfterElse else Inr (Frame (\<not> b) True # fs, t))"
| "pp_line Endif ([], t) = Inl EndifWithoutIf"
| "pp_line Endif (f # fs, t) = Inr (fs, t)"
| "pp_line (ArrayDef d) (fs, t) =
     Inr (fs, if active fs then t\<lparr>emitted := emitted t @ [d]\<rparr> else t)"

fun pp_lines :: "line list \<Rightarrow> frame list \<times> tu \<Rightarrow> error + frame list \<times> tu" where
  "pp_lines [] s = Inr s"
| "pp_lines (l # ls) s = (case pp_line l s of Inl e \<Rightarrow> Inl e | Inr s' \<Rightarrow> pp_lines ls s')"

text \<open>Including a file: its conditionals open and close within the file.\<close>

definition include_file :: "line list \<Rightarrow> tu \<Rightarrow> error + tu" where
  "include_file ls t =
     (case pp_lines ls ([], t) of
        Inl e \<Rightarrow> Inl e
      | Inr (fs, t') \<Rightarrow> if fs = [] then Inr t' else Inl UnterminatedConditional)"

fun include_all :: "line list list \<Rightarrow> tu \<Rightarrow> error + tu" where
  "include_all [] t = Inr t"
| "include_all (f # fs) t =
     (case include_file f t of Inl e \<Rightarrow> Inl e | Inr t' \<Rightarrow> include_all fs t')"

subsection \<open>The array object\<close>

text \<open>
  The element type \<^verbatim>\<open>model_default_t\<close> is declared outside this header, so the
  conversion \<open>cv\<close> of a literal's value to the element type is a parameter. A
  namespace-scope object without an initializer is zero-initialised: each element is 0
  converted to the element type. With a brace-enclosed initializer the elements are
  initialised in order, the tail that has no initializer is zero, and more initializers
  than elements is an error.
\<close>

definition zero_filled :: "array_def \<Rightarrow> nat" where
  "zero_filled d =
     (case initializer d of None \<Rightarrow> arr_size d | Some vs \<Rightarrow> arr_size d - length vs)"

definition init_array :: "(rat \<Rightarrow> 'a) \<Rightarrow> array_def \<Rightarrow> error + 'a list" where
  "init_array cv d =
     (case initializer d of
        None \<Rightarrow> Inr (replicate (arr_size d) (cv 0))
      | Some vs \<Rightarrow>
          if arr_size d < length vs then Inl (ExcessInitializers (arr_name d))
          else Inr (map cv vs @ replicate (zero_filled d) (cv 0)))"

definition definitions_of :: "string \<Rightarrow> tu \<Rightarrow> array_def list" where
  "definitions_of n t = filter (\<lambda>d. arr_name d = n) (emitted t)"

text \<open>A name denotes an object when the translation unit defines it exactly once.\<close>

definition the_definition :: "string \<Rightarrow> tu \<Rightarrow> error + array_def" where
  "the_definition n t =
     (case definitions_of n t of
        [] \<Rightarrow> Inl (Undeclared n)
      | [d] \<Rightarrow> Inr d
      | d # d' # ds \<Rightarrow> Inl (Redefinition n))"

definition array_object :: "(rat \<Rightarrow> 'a) \<Rightarrow> string \<Rightarrow> tu \<Rightarrow> error + 'a list" where
  "array_object cv n t =
     (case the_definition n t of Inl e \<Rightarrow> Inl e | Inr d \<Rightarrow> init_array cv d)"

text \<open>
  The array \<^verbatim>\<open>b4\<close> of a translation unit that includes the header once, built with
  the macros \<open>M\<close> predefined.
\<close>

definition b4 :: "(rat \<Rightarrow> 'a) \<Rightarrow> macro set \<Rightarrow> error + 'a list" where
  "b4 cv M =
     (case include_file b4_h \<lparr>defined = M, emitted = []\<rparr> of
        Inl e \<Rightarrow> Inl e
      | Inr t \<Rightarrow> array_object cv ''b4'' t)"

subsection \<open>Writes by the consuming code\<close>

text \<open>
  An assignment \<^verbatim>\<open>name[i] = v\<close> in the code that includes the header. It is rejected
  when the definition carries \<^verbatim>\<open>const\<close>; an index past the end has no defined
  behaviour and is an error here.
\<close>

definition is_const :: "array_def \<Rightarrow> bool" where
  "is_const d = (''const'' \<in> set (specifiers d))"

definition assign_elem :: "array_def \<Rightarrow> nat \<Rightarrow> 'a \<Rightarrow> 'a list \<Rightarrow> error + 'a list" where
  "assign_elem d i v vs =
     (if is_const d then Inl (AssignToConst (arr_name d))
      else if i < length vs then Inr (vs[i := v])
      else Inl (OutOfBounds (arr_name d) i))"

definition b4_assign :: "(rat \<Rightarrow> 'a) \<Rightarrow> macro set \<Rightarrow> nat \<Rightarrow> 'a \<Rightarrow> error + 'a list" where
  "b4_assign cv M i v =
     (case include_file b4_h \<lparr>defined = M, emitted = []\<rparr> of
        Inl e \<Rightarrow> Inl e
      | Inr t \<Rightarrow>
          (case the_definition ''b4'' t of
             Inl e \<Rightarrow> Inl e
           | Inr d \<Rightarrow>
               (case init_array cv d of
                  Inl e \<Rightarrow> Inl e
                | Inr vs \<Rightarrow> assign_elem d i v vs)))"

subsection \<open>The summary comments\<close>

text \<open>The value a summary comment of the file records under a label.\<close>

fun summary :: "line list \<Rightarrow> string \<Rightarrow> rat option" where
  "summary [] k = None"
| "summary (Summary k' v # ls) k = (if k' = k then Some v else summary ls k)"
| "summary (l # ls) k = summary ls k"

text \<open>Rounding to the nearest integer, a tie to the even one.\<close>

definition round_even :: "rat \<Rightarrow> int" where
  "round_even y =
     (let f = \<lfloor>y\<rfloor>; r = y - of_int f
      in if r < 1 / 2 then f else if 1 / 2 < r then f + 1 else if even f then f else f + 1)"

text \<open>A value at the four decimals the literals are printed with.\<close>

definition round4 :: "rat \<Rightarrow> rat" where
  "round4 x = of_int (round_even (x * 10000)) / 10000"

definition zeros :: "'a \<Rightarrow> 'a list \<Rightarrow> nat" where
  "zeros z vs = length (filter (\<lambda>v. v = z) vs)"

subsection \<open>The element type\<close>

text \<open>
  Modelled from the spec: the element type \<^verbatim>\<open>model_default_t\<close>, whose declaration is
  not in this header. The spec calls the entries floating-point numbers; the type is taken
  as a binary floating-point format with \<open>p\<close> significand bits and least exponent
  \<open>emin\<close>, every conversion rounding to the nearest value of the format, a tie to the
  even significand. The exponent has no upper bound here: the literals are below 1.
\<close>

text \<open>The exponent \<open>e\<close> with \<open>2 powi e \<le> \<bar>x\<bar> < 2 powi (e + 1)\<close>, for \<open>x \<noteq> 0\<close>.\<close>

definition exponent_of :: "rat \<Rightarrow> int" where
  "exponent_of x =
     (let (a, b) = quotient_of \<bar>x\<bar>; k = bitlen a - bitlen b
      in if 2 powi k \<le> \<bar>x\<bar> then k else k - 1)"






section \<open>Properties\<close>

subsection \<open>Inclusion of the header\<close>

text \<open>
  One inclusion either finds the guard defined and changes nothing, or defines the guard
  and emits the definition that the build mode selects.
\<close>

lemma include_b4_h:
  "include_file b4_h \<lparr>defined = M, emitted = E\<rparr> =
     Inr (if ''B4_H_'' \<in> M then \<lparr>defined = M, emitted = E\<rparr>
          else \<lparr>defined = insert ''B4_H_'' M,
                emitted = E @ [if ''__SYNTHESIS__'' \<in> M then b4_literal_def else b4_placeholder]\<rparr>)"
  by (simp add: include_file_def b4_h_def active_def)

lemma include_all_b4_h:
  "include_all (replicate n b4_h) \<lparr>defined = M, emitted = E\<rparr> =
     Inr (if n = 0 \<or> ''B4_H_'' \<in> M then \<lparr>defined = M, emitted = E\<rparr>
          else \<lparr>defined = insert ''B4_H_'' M,
                emitted = E @ [if ''__SYNTHESIS__'' \<in> M then b4_literal_def else b4_placeholder]\<rparr>)"
proof (induction n arbitrary: M E)
  case 0
  show ?case by simp
next
  case (Suc n)
  show ?case
    by (simp add: include_b4_h Suc.IH)
qed

lemma definitions_differ: "b4_literal_def \<noteq> b4_placeholder"
  by (simp add: b4_literal_def_def b4_placeholder_def)

lemma length_b4_literals: "length b4_literals = 256"
  by (simp add: b4_literals_def)

lemma definitions_of_single:
  "definitions_of ''b4'' \<lparr>defined = D, emitted = [if c then b4_literal_def else b4_placeholder]\<rparr>
     = [if c then b4_literal_def else b4_placeholder]"
  by (simp add: definitions_of_def b4_literal_def_def b4_placeholder_def)

lemma the_definition_b4:
  "''B4_H_'' \<notin> M \<Longrightarrow>
   include_file b4_h \<lparr>defined = M, emitted = []\<rparr> = Inr t \<Longrightarrow>
   the_definition ''b4'' t =
     Inr (if ''__SYNTHESIS__'' \<in> M then b4_literal_def else b4_placeholder)"
  by (auto simp add: include_b4_h the_definition_def definitions_of_def
        b4_literal_def_def b4_placeholder_def)

subsection \<open>The value of the array\<close>

lemma init_array_literal: "init_array cv b4_literal_def = Inr (map cv b4_literals)"
  by (simp add: init_array_def zero_filled_def b4_literal_def_def length_b4_literals)

lemma init_array_placeholder: "init_array cv b4_placeholder = Inr (replicate 256 (cv 0))"
  by (simp add: init_array_def b4_placeholder_def)

lemma b4_value:
  "''B4_H_'' \<notin> M \<Longrightarrow>
   b4 cv M = Inr (if ''__SYNTHESIS__'' \<in> M then map cv b4_literals else replicate 256 (cv 0))"
  by (simp add: b4_def include_b4_h array_object_def the_definition_def definitions_of_def
        init_array_literal init_array_placeholder)
    (simp add: b4_literal_def_def b4_placeholder_def)

lemma not_const: "\<not> is_const b4_literal_def" "\<not> is_const b4_placeholder"
  by (simp_all add: is_const_def b4_literal_def_def b4_placeholder_def)

lemma b4_assign_value:
  "''B4_H_'' \<notin> M \<Longrightarrow> i < 256 \<Longrightarrow>
   b4_assign cv M i v =
     Inr ((if ''__SYNTHESIS__'' \<in> M then map cv b4_literals else replicate 256 (cv 0))[i := v])"
  by (simp add: b4_assign_def include_b4_h the_definition_def definitions_of_single
        init_array_literal init_array_placeholder assign_elem_def not_const length_b4_literals)

subsection \<open>The literals\<close>

lemma b4_literals_range:
  "list_all (\<lambda>x. - 0.3029 \<le> x \<and> x \<le> 0.0985) b4_literals"
  by (simp add: b4_literals_def)

lemma b4_literals_magnitude:
  "list_all (\<lambda>x. 49 / 10000 \<le> \<bar>x\<bar> \<and> \<bar>x\<bar> \<le> 3029 / 10000) b4_literals"
  by (simp add: b4_literals_def)


lemma b4_literals_extremes:
  "- 0.3029 \<in> set b4_literals" "0.0985 \<in> set b4_literals"
  by (simp_all add: b4_literals_def)

lemma b4_literals_ne: "set b4_literals \<noteq> {}"
  using b4_literals_extremes(1) by auto

lemma Min_b4_literals: "Min (set b4_literals) = - 0.3029"
proof (rule Min_eqI)
  show "finite (set b4_literals)" by simp
  show "- 0.3029 \<in> set b4_literals" by (rule b4_literals_extremes)
  fix y assume "y \<in> set b4_literals"
  then show "- 0.3029 \<le> y"
    using b4_literals_range by (simp add: list_all_iff)
qed

lemma Max_b4_literals: "Max (set b4_literals) = 0.0985"
proof (rule Max_eqI)
  show "finite (set b4_literals)" by simp
  show "0.0985 \<in> set b4_literals" by (rule b4_literals_extremes)
  fix y assume "y \<in> set b4_literals"
  then show "y \<le> 0.0985"
    using b4_literals_range by (simp add: list_all_iff)
qed

lemma zeros_0_iff: "zeros z vs = 0 \<longleftrightarrow> z \<notin> set vs"
  by (simp add: zeros_def filter_empty_conv) blast

subsection \<open>Rounding\<close>

lemma round_even_error: "\<bar>of_int (round_even y) - y\<bar> \<le> 1 / 2"
proof -
  have "of_int \<lfloor>y\<rfloor> \<le> y" "y < of_int \<lfloor>y\<rfloor> + 1"
    by linarith+
  then show ?thesis
    by (auto simp add: round_even_def Let_def)
qed

lemma round_even_unique:
  assumes "\<bar>y - of_int m\<bar> < 1 / 2"
  shows "round_even y = m"
proof -
  have "\<bar>(of_int (round_even y) :: rat) - of_int m\<bar> < 1"
    using round_even_error [of y] assms by linarith
  then have "\<bar>(of_int (round_even y - m) :: rat)\<bar> < of_int 1"
    by simp
  then have "\<bar>round_even y - m\<bar> < 1"
    unfolding of_int_abs [symmetric] of_int_less_iff .
  then show ?thesis by simp
qed

lemma summary_b4_h:
  "summary b4_h ''Min'' = Some (- 0.302869617939)"
  "summary b4_h ''Max'' = Some 0.098474644125"
  "summary b4_h ''Number of zeros'' = Some 0"
  by (simp_all add: b4_h_def)

lemma round4_summary:
  "round4 (- 0.302869617939) = - 0.3029" "round4 0.098474644125 = 0.0985"
proof -
  have "round_even (- 0.302869617939 * 10000) = - 3029"
    by (rule round_even_unique) simp
  then show "round4 (- 0.302869617939) = - 0.3029"
    by (simp add: round4_def)
  have "round_even (0.098474644125 * 10000) = 985"
    by (rule round_even_unique) simp
  then show "round4 0.098474644125 = 0.0985"
    by (simp add: round4_def)
qed


lemma exponent_of_upper:
  assumes "x \<noteq> 0"
  shows "\<bar>x\<bar> < 2 powi (exponent_of x + 1)"
proof -
  obtain a b where q: "quotient_of \<bar>x\<bar> = (a, b)"
    by (cases "quotient_of \<bar>x\<bar>")
  have b: "0 < b" using q by (rule quotient_of_denom_pos)
  have x: "\<bar>x\<bar> = of_int a / of_int b" using q by (rule quotient_of_div)
  have a: "0 < a"
  proof -
    have "0 < \<bar>x\<bar>" using assms by simp
    then have "0 < (of_int a :: rat) / of_int b" by (simp add: x)
    then show ?thesis using b by (simp add: zero_less_divide_iff)
  qed
  define k where "k = bitlen a - bitlen b"
  have e: "exponent_of x = (if 2 powi k \<le> \<bar>x\<bar> then k else k - 1)"
    by (simp add: exponent_of_def q k_def Let_def)
  have la: "1 \<le> bitlen a" and lb: "1 \<le> bitlen b"
    using a b bitlen_eq_zero_iff [of a] bitlen_eq_zero_iff [of b] bitlen_nonneg [of a]
      bitlen_nonneg [of b] by linarith+
  have "of_int a / of_int b < (2::rat) ^ nat (bitlen a) / 2 ^ nat (bitlen b - 1)"
  proof -
    have "a < 2 ^ nat (bitlen a)" "(2::int) ^ nat (bitlen b - 1) \<le> b"
      using bitlen_bounds [OF a] bitlen_bounds [OF b] by simp_all
    then have "(of_int a :: rat) < 2 ^ nat (bitlen a)" "(2::rat) ^ nat (bitlen b - 1) \<le> of_int b"
      by (metis of_int_less_iff of_int_numeral of_int_power,
          metis of_int_le_iff of_int_numeral of_int_power)
    then show ?thesis
      using a by (intro frac_less) simp_all
  qed
  also have "\<dots> = 2 powi (bitlen a) / 2 powi (bitlen b - 1)"
    using la lb by (simp add: power_int_def)
  also have "\<dots> = 2 powi (bitlen a - (bitlen b - 1))"
    by (simp only: power_int_diff [of "2::rat" "bitlen a" "bitlen b - 1", simplified])
  also have "bitlen a - (bitlen b - 1) = k + 1"
    by (simp add: k_def)
  finally have "\<bar>x\<bar> < 2 powi (k + 1)" by (simp add: x)
  then show ?thesis by (auto simp add: e)
qed



subsection \<open>Printing the stored values\<close>



section \<open>The claims\<close>

text \<open>
  \<^bold>\<open>C1\<close>. Built with \<^verbatim>\<open>__SYNTHESIS__\<close> defined, the array holds the 256 literals of the
  initializer in index order, each converted to the element type and nothing else:
  entry 0 is -0.1326, entry 1 is -0.2092, entry 255 is -0.0721.
\<close>

theorem b4_synthesis_literals:
  assumes "''__SYNTHESIS__'' \<in> M" and "''B4_H_'' \<notin> M"
  shows "b4 cv M = Inr (map cv b4_literals) \<and> length b4_literals = 256 \<and>
         map cv b4_literals ! 0 = cv (- 0.1326) \<and>
         map cv b4_literals ! 1 = cv (- 0.2092) \<and>
         map cv b4_literals ! 255 = cv (- 0.0721)"
proof -
  have "b4 cv M = Inr (map cv b4_literals)"
    using assms by (simp add: b4_value)
  moreover have "b4_literals ! 0 = - 0.1326" "b4_literals ! 1 = - 0.2092"
    "b4_literals ! 255 = - 0.0721"
    by (simp_all add: b4_literals_def)
  ultimately show ?thesis
    by (simp add: length_b4_literals)
qed

theorem b4_synthesis_literals_witness:
  "''__SYNTHESIS__'' \<in> {''__SYNTHESIS__''} \<and> ''B4_H_'' \<notin> {''__SYNTHESIS__''} \<and>
   b4 (\<lambda>x :: rat. x) {''__SYNTHESIS__''} = Inr (map (\<lambda>x. x) b4_literals) \<and>
   length b4_literals = 256 \<and>
   map (\<lambda>x :: rat. x) b4_literals ! 0 = - 0.1326 \<and>
   map (\<lambda>x :: rat. x) b4_literals ! 1 = - 0.2092 \<and>
   map (\<lambda>x :: rat. x) b4_literals ! 255 = - 0.0721"
proof -
  have a: "''__SYNTHESIS__'' \<in> {''__SYNTHESIS__''}" by simp
  have b: "''B4_H_'' \<notin> {''__SYNTHESIS__''}" by simp
  from b4_synthesis_literals [OF a b, of "\<lambda>x. x"] a b show ?thesis by blast
qed

text \<open>
  \<^bold>\<open>C2\<close>. In either build mode the array has exactly 256 elements.
\<close>

theorem b4_length_256:
  assumes "''B4_H_'' \<notin> M"
  shows "\<exists>vs. b4 cv M = Inr vs \<and> length vs = 256"
  using assms by (simp add: b4_value length_b4_literals)

theorem b4_length_256_witness:
  "''B4_H_'' \<notin> ({} :: macro set) \<and>
   (\<exists>vs. b4 (\<lambda>x :: rat. x) {} = Inr vs \<and> length vs = 256) \<and>
   ''B4_H_'' \<notin> {''__SYNTHESIS__''} \<and>
   (\<exists>vs. b4 (\<lambda>x :: rat. x) {''__SYNTHESIS__''} = Inr vs \<and> length vs = 256)"
  using b4_length_256 [of "{}" "\<lambda>x. x"] b4_length_256 [of "{''__SYNTHESIS__''}" "\<lambda>x. x"]
  by simp

text \<open>
  \<^bold>\<open>C3\<close>. Built without \<^verbatim>\<open>__SYNTHESIS__\<close>, every one of the 256 entries is zero: the
  definition has no initializer and the object is zero-initialised.
\<close>

theorem b4_placeholder_zero:
  assumes "''__SYNTHESIS__'' \<notin> M" and "''B4_H_'' \<notin> M"
  shows "b4 cv M = Inr (replicate 256 (cv 0))"
  using assms by (simp add: b4_value)

theorem b4_placeholder_zero_witness:
  "''__SYNTHESIS__'' \<notin> ({} :: macro set) \<and> ''B4_H_'' \<notin> ({} :: macro set) \<and>
   b4 (\<lambda>x :: rat. x) {} = Inr (replicate 256 0)"
  using b4_placeholder_zero [of "{}" "\<lambda>x. x"] by simp

text \<open>
  \<^bold>\<open>C4\<close>. In synthesis mode the least entry is -0.3029, the greatest is 0.0985 and no
  entry is zero, as the three summary comments say once their values are rounded to the
  four printed decimals. The conversion to the element type is any monotone one that
  keeps a value of magnitude at least 0.0001 apart from zero.
\<close>

theorem b4_summary_statistics:
  fixes cv :: "rat \<Rightarrow> 'a::linorder"
  assumes "mono cv" and "cv 0 \<notin> cv ` {x. 1 / 10000 \<le> \<bar>x\<bar>}"
    and "''__SYNTHESIS__'' \<in> M" and "''B4_H_'' \<notin> M"
  shows "\<exists>vs. b4 cv M = Inr vs \<and>
           Min (set vs) = cv (- 0.3029) \<and> Max (set vs) = cv 0.0985 \<and> zeros (cv 0) vs = 0 \<and>
           map_option round4 (summary b4_h ''Min'') = Some (- 0.3029) \<and>
           map_option round4 (summary b4_h ''Max'') = Some 0.0985 \<and>
           summary b4_h ''Number of zeros'' = Some 0"
proof -
  have v: "b4 cv M = Inr (map cv b4_literals)"
    using assms(3,4) by (simp add: b4_value)
  have "Min (set (map cv b4_literals)) = cv (Min (set b4_literals))"
    using mono_Min_commute [OF assms(1), of "set b4_literals"] b4_literals_ne by simp
  then have mn: "Min (set (map cv b4_literals)) = cv (- 0.3029)"
    by (simp only: Min_b4_literals)
  have "Max (set (map cv b4_literals)) = cv (Max (set b4_literals))"
    using mono_Max_commute [OF assms(1), of "set b4_literals"] b4_literals_ne by simp
  then have mx: "Max (set (map cv b4_literals)) = cv 0.0985"
    by (simp only: Max_b4_literals)
  have "cv 0 \<notin> set (map cv b4_literals)"
  proof
    assume "cv 0 \<in> set (map cv b4_literals)"
    then obtain x where x: "x \<in> set b4_literals" "cv x = cv 0" by auto
    from x(1) have "49 / 10000 \<le> \<bar>x\<bar>"
      using b4_literals_magnitude by (simp add: list_all_iff)
    then have "x \<in> {x. 1 / 10000 \<le> \<bar>x\<bar>}" by simp
    then have "cv x \<in> cv ` {x. 1 / 10000 \<le> \<bar>x\<bar>}" by (rule imageI)
    with assms(2) x(2) show False by simp
  qed
  then have z: "zeros (cv 0) (map cv b4_literals) = 0"
    by (simp add: zeros_0_iff)
  have c: "map_option round4 (summary b4_h ''Min'') = Some (- 0.3029)"
    "map_option round4 (summary b4_h ''Max'') = Some 0.0985"
    by (simp_all only: summary_b4_h option.map round4_summary)
  show ?thesis
    using v mn mx z c summary_b4_h(3) by blast
qed

theorem b4_summary_statistics_witness:
  "mono (\<lambda>x :: rat. x) \<and> (0 :: rat) \<notin> (\<lambda>x. x) ` {x. 1 / 10000 \<le> \<bar>x\<bar>} \<and>
   ''__SYNTHESIS__'' \<in> {''__SYNTHESIS__''} \<and> ''B4_H_'' \<notin> {''__SYNTHESIS__''} \<and>
   (\<exists>vs. b4 (\<lambda>x :: rat. x) {''__SYNTHESIS__''} = Inr vs \<and>
      Min (set vs) = - 0.3029 \<and> Max (set vs) = 0.0985 \<and> zeros 0 vs = 0 \<and>
      map_option round4 (summary b4_h ''Min'') = Some (- 0.3029) \<and>
      map_option round4 (summary b4_h ''Max'') = Some 0.0985 \<and>
      summary b4_h ''Number of zeros'' = Some 0)"
proof -
  have m: "mono (\<lambda>x :: rat. x)" by (simp add: mono_def)
  have s: "(0 :: rat) \<notin> (\<lambda>x. x) ` {x. 1 / 10000 \<le> \<bar>x\<bar>}" by auto
  have a: "''__SYNTHESIS__'' \<in> {''__SYNTHESIS__''}" by simp
  have b: "''B4_H_'' \<notin> {''__SYNTHESIS__''}" by simp
  from b4_summary_statistics [OF m s a b] m s a b show ?thesis by blast
qed

text \<open>
  \<^bold>\<open>C5\<close>. A second inclusion of the header contributes nothing: including it twice is
  including it once, and however often it is included, at most one definition of
  \<^verbatim>\<open>b4\<close> reaches the translation unit, so the name is never redefined.
\<close>

theorem b4_h_include_once:
  "(\<exists>t. include_file b4_h t0 = Inr t \<and> include_file b4_h t = Inr t \<and>
        include_all [b4_h, b4_h] t0 = include_all [b4_h] t0) \<and>
   (\<exists>t. include_all (replicate n b4_h) \<lparr>defined = M, emitted = []\<rparr> = Inr t \<and>
        length (definitions_of ''b4'' t) \<le> 1 \<and>
        the_definition ''b4'' t \<noteq> Inl (Redefinition ''b4''))"
proof
  obtain D E where t0: "t0 = \<lparr>defined = D, emitted = E\<rparr>"
    by (cases t0) simp
  show "\<exists>t. include_file b4_h t0 = Inr t \<and> include_file b4_h t = Inr t \<and>
        include_all [b4_h, b4_h] t0 = include_all [b4_h] t0"
    by (simp add: t0 include_b4_h)
next
  show "\<exists>t. include_all (replicate n b4_h) \<lparr>defined = M, emitted = []\<rparr> = Inr t \<and>
        length (definitions_of ''b4'' t) \<le> 1 \<and>
        the_definition ''b4'' t \<noteq> Inl (Redefinition ''b4'')"
    by (simp add: include_all_b4_h the_definition_def definitions_of_single)
      (simp add: definitions_of_def)
qed

text \<open>
  \<^bold>\<open>C6\<close>, as the claim states it: the object is a constant that nothing can change
  after its definition. Neither definition carries \<^verbatim>\<open>const\<close>, and an assignment to
  entry 0 by the including code is accepted and changes the array.
\<close>

theorem b4_is_not_constant:
  "b4 id {} = Inr (replicate 256 (0 :: rat)) \<and>
   b4_assign id {} 0 (1 :: rat) = Inr (1 # replicate 255 0) \<and>
   \<not> is_const b4_placeholder \<and> \<not> is_const b4_literal_def"
proof -
  have "(replicate 256 (0 :: rat))[0 := 1] = 1 # replicate 255 0"
    by (simp add: numeral_eq_Suc)
  then show ?thesis
    by (simp add: b4_value b4_assign_value not_const)
qed

text \<open>
  \<^bold>\<open>C6\<close>, amended. In both build modes \<^verbatim>\<open>b4\<close> is defined without \<^verbatim>\<open>const\<close>: the
  header writes nothing to it, but the object is modifiable, and an assignment by the
  including code to any entry \<open>i < 256\<close> is accepted and replaces that entry alone.
\<close>

theorem b4_writable:
  assumes "''B4_H_'' \<notin> M" and "i < 256"
  shows "\<exists>vs. b4 cv M = Inr vs \<and> b4_assign cv M i v = Inr (vs[i := v]) \<and>
           \<not> is_const b4_placeholder \<and> \<not> is_const b4_literal_def"
  using assms by (simp add: b4_value b4_assign_value not_const)

theorem b4_writable_witness:
  "''B4_H_'' \<notin> {''__SYNTHESIS__''} \<and> (5 :: nat) < 256 \<and>
   (\<exists>vs. b4 (\<lambda>x :: rat. x) {''__SYNTHESIS__''} = Inr vs \<and>
      b4_assign (\<lambda>x. x) {''__SYNTHESIS__''} 5 0 = Inr (vs[5 := 0]) \<and>
      \<not> is_const b4_placeholder \<and> \<not> is_const b4_literal_def)"
  using b4_writable [of "{''__SYNTHESIS__''}" 5 "\<lambda>x. x" 0] by simp

text \<open>
  \<^bold>\<open>C7\<close>. Every build selects exactly one of the two definitions: the placeholder when
  \<^verbatim>\<open>__SYNTHESIS__\<close> is undefined, the literal-valued one when it is defined; the two
  differ.
\<close>

theorem b4_h_selects_one_definition:
  assumes "''B4_H_'' \<notin> M"
  shows "include_file b4_h \<lparr>defined = M, emitted = []\<rparr> =
           Inr \<lparr>defined = insert ''B4_H_'' M,
                emitted = [if ''__SYNTHESIS__'' \<in> M then b4_literal_def else b4_placeholder]\<rparr> \<and>
         b4_literal_def \<noteq> b4_placeholder"
  using assms by (simp add: include_b4_h definitions_differ)

theorem b4_h_selects_one_definition_witness:
  "''B4_H_'' \<notin> ({} :: macro set) \<and>
   include_file b4_h \<lparr>defined = {}, emitted = []\<rparr> =
     Inr \<lparr>defined = {''B4_H_''}, emitted = [b4_placeholder]\<rparr> \<and>
   ''B4_H_'' \<notin> {''__SYNTHESIS__''} \<and>
   include_file b4_h \<lparr>defined = {''__SYNTHESIS__''}, emitted = []\<rparr> =
     Inr \<lparr>defined = {''B4_H_'', ''__SYNTHESIS__''}, emitted = [b4_literal_def]\<rparr> \<and>
   b4_literal_def \<noteq> b4_placeholder"
  using b4_h_selects_one_definition [of "{}"]
    b4_h_selects_one_definition [of "{''__SYNTHESIS__''}"]
  by simp




text \<open>
  \<^bold>\<open>C9\<close>, as the claim states it: the minimum and maximum that the comments record bound
  every entry. The comments record -0.302869617939 and 0.098474644125; entry 192 is
  -0.3029, below the first, and entry 232 is 0.0985, above the second.
\<close>

theorem b4_comment_bounds_exceeded:
  "summary b4_h ''Min'' = Some (- 0.302869617939) \<and>
   summary b4_h ''Max'' = Some 0.098474644125 \<and>
   b4 id {''__SYNTHESIS__''} = Inr (map id b4_literals) \<and>
   map id b4_literals ! 192 = - 0.3029 \<and> (- 0.3029 :: rat) < - 0.302869617939 \<and>
   map id b4_literals ! 232 = 0.0985 \<and> (0.098474644125 :: rat) < 0.0985"
proof -
  have "b4 id {''__SYNTHESIS__''} = Inr (map id b4_literals)"
    by (simp add: b4_value)
  moreover have "b4_literals ! 192 = - 0.3029" "b4_literals ! 232 = 0.0985"
    by (simp_all add: b4_literals_def)
  moreover have "(- 0.3029 :: rat) < - 0.302869617939" "(0.098474644125 :: rat) < 0.0985"
    by simp_all
  ultimately show ?thesis
    using summary_b4_h(1,2) by (simp add: length_b4_literals)
qed

text \<open>
  \<^bold>\<open>C9\<close>, amended. In synthesis mode every one of the 256 entries lies between -0.3029
  and 0.0985, and these two bounds are the minimum and maximum of the comments rounded to
  the four printed decimals. The conversion to the element type is any monotone one.
\<close>

theorem b4_entries_within_bounds:
  fixes cv :: "rat \<Rightarrow> 'a::order"
  assumes "mono cv" and "''__SYNTHESIS__'' \<in> M" and "''B4_H_'' \<notin> M"
  shows "\<exists>vs lo hi. b4 cv M = Inr vs \<and> length vs = 256 \<and>
           map_option round4 (summary b4_h ''Min'') = Some lo \<and>
           map_option round4 (summary b4_h ''Max'') = Some hi \<and>
           lo = - 0.3029 \<and> hi = 0.0985 \<and>
           (\<forall>v \<in> set vs. cv lo \<le> v \<and> v \<le> cv hi)"
proof -
  have v: "b4 cv M = Inr (map cv b4_literals)"
    using assms(2,3) by (simp add: b4_value)
  have l: "length (map cv b4_literals) = 256"
    by (simp add: length_b4_literals)
  have c: "map_option round4 (summary b4_h ''Min'') = Some (- 0.3029)"
    "map_option round4 (summary b4_h ''Max'') = Some 0.0985"
    by (simp_all only: summary_b4_h option.map round4_summary)
  have "cv (- 0.3029) \<le> cv x \<and> cv x \<le> cv 0.0985" if "x \<in> set b4_literals" for x
  proof -
    from that have "- 0.3029 \<le> x \<and> x \<le> 0.0985"
      using b4_literals_range by (simp add: list_all_iff)
    then show ?thesis using assms(1) by (simp add: monoD)
  qed
  then have b: "\<forall>v \<in> set (map cv b4_literals). cv (- 0.3029) \<le> v \<and> v \<le> cv 0.0985"
    by auto
  show ?thesis
    using v l c b by blast
qed

theorem b4_entries_within_bounds_witness:
  "mono (\<lambda>x :: rat. x) \<and>
   ''__SYNTHESIS__'' \<in> {''__SYNTHESIS__''} \<and> ''B4_H_'' \<notin> {''__SYNTHESIS__''} \<and>
   (\<exists>vs lo hi. b4 (\<lambda>x :: rat. x) {''__SYNTHESIS__''} = Inr vs \<and> length vs = 256 \<and>
      map_option round4 (summary b4_h ''Min'') = Some lo \<and>
      map_option round4 (summary b4_h ''Max'') = Some hi \<and>
      lo = - 0.3029 \<and> hi = 0.0985 \<and>
      (\<forall>v \<in> set vs. lo \<le> v \<and> v \<le> hi))"
proof -
  have m: "mono (\<lambda>x :: rat. x)" by (simp add: mono_def)
  have a: "''__SYNTHESIS__'' \<in> {''__SYNTHESIS__''}" by simp
  have b: "''B4_H_'' \<notin> {''__SYNTHESIS__''}" by simp
  from b4_entries_within_bounds [OF m a b] m a b show ?thesis by blast
qed

text \<open>
  \<^bold>\<open>C10\<close>. In synthesis mode the initializer has exactly 256 literals for the 256
  elements: no element is left to zero filling, and the initializer does not exceed the
  array.
\<close>

theorem b4_initializer_complete:
  assumes "''__SYNTHESIS__'' \<in> M" and "''B4_H_'' \<notin> M"
  shows "\<exists>t d vs. include_file b4_h \<lparr>defined = M, emitted = []\<rparr> = Inr t \<and>
           the_definition ''b4'' t = Inr d \<and> initializer d = Some vs \<and>
           length vs = 256 \<and> arr_size d = 256 \<and> zero_filled d = 0 \<and>
           init_array cv d = Inr (map cv vs)"
proof -
  obtain t where t: "include_file b4_h \<lparr>defined = M, emitted = []\<rparr> = Inr t"
    by (simp add: include_b4_h)
  have d: "the_definition ''b4'' t = Inr b4_literal_def"
    using the_definition_b4 [OF assms(2) t] assms(1) by simp
  have "initializer b4_literal_def = Some b4_literals" "arr_size b4_literal_def = 256"
    by (simp_all add: b4_literal_def_def)
  moreover have "zero_filled b4_literal_def = 0"
    by (simp add: zero_filled_def b4_literal_def_def length_b4_literals)
  ultimately show ?thesis
    using t d init_array_literal [of cv] length_b4_literals by blast
qed

theorem b4_initializer_complete_witness:
  "''__SYNTHESIS__'' \<in> {''__SYNTHESIS__''} \<and> ''B4_H_'' \<notin> {''__SYNTHESIS__''} \<and>
   (\<exists>t d vs. include_file b4_h \<lparr>defined = {''__SYNTHESIS__''}, emitted = []\<rparr> = Inr t \<and>
      the_definition ''b4'' t = Inr d \<and> initializer d = Some vs \<and>
      length vs = 256 \<and> arr_size d = 256 \<and> zero_filled d = 0 \<and>
      init_array (\<lambda>x :: rat. x) d = Inr (map (\<lambda>x. x) vs))"
  using b4_initializer_complete [of "{''__SYNTHESIS__''}" "\<lambda>x. x"] by simp

end
